theory Spec2Isabelle
  imports Complex_Main
begin

section \<open>Python values and errors\<close>

text \<open>
  The program is dynamically typed: an event is a 3-tuple \<open>(event_time, event_type,
  event_data)\<close> whose components may be any Python value, and the persisted form is whatever
  \<open>json.load\<close> returns. \<open>pyval\<close> covers the values the program handles: the JSON values, tuples,
  and the three kinds of pynput objects (\<open>keyboard.KeyCode\<close> with its attributes \<open>char\<close>,
  \<open>vk\<close> and \<open>is_dead\<close>, members of the enumeration \<open>keyboard.Key\<close> and members of the
  enumeration \<open>mouse.Button\<close>, both identified by their member name).
  A dictionary is an association list read with \<open>map_of\<close>; its keys are strings, as in JSON.
\<close>

datatype pyval =
    PNone
  | PBool bool
  | PInt int
  | PFloat real
  | PStr string
  | PList "pyval list"
  | PTuple "pyval list"
  | PDict "(string \<times> pyval) list"
  | KeyCode "string option" "int option" bool
  | Key string
  | Button string

datatype pyerr = KeyError | AttributeError | TypeError | ValueError | IndexError | SynthesisError
  | HookInstallError

type_synonym event = "pyval \<times> pyval \<times> pyval"

text \<open>Sequencing of computations that may raise: the first exception wins.\<close>

definition bind_err :: "pyerr + 'a \<Rightarrow> ('a \<Rightarrow> pyerr + 'b) \<Rightarrow> pyerr + 'b" where
  "bind_err m f = (case m of Inl e \<Rightarrow> Inl e | Inr v \<Rightarrow> f v)"

text \<open>\<open>d[k]\<close> for a string \<open>k\<close>: \<open>KeyError\<close> on a dictionary without the key, \<open>TypeError\<close> on
  every other value (sequences want integer indices, the other values are not subscriptable).\<close>

definition getitem :: "pyval \<Rightarrow> string \<Rightarrow> pyerr + pyval" where
  "getitem d k =
     (case d of
        PDict kvs \<Rightarrow> (case map_of kvs k of Some v \<Rightarrow> Inr v | None \<Rightarrow> Inl KeyError)
      | _ \<Rightarrow> Inl TypeError)"

text \<open>\<open>d.get(k, dflt)\<close>: only dictionaries have the method.\<close>

definition get_default :: "pyval \<Rightarrow> string \<Rightarrow> pyval \<Rightarrow> pyerr + pyval" where
  "get_default d k dflt =
     (case d of
        PDict kvs \<Rightarrow> (case map_of kvs k of Some v \<Rightarrow> Inr v | None \<Rightarrow> Inr dflt)
      | _ \<Rightarrow> Inl AttributeError)"

text \<open>Iteration (\<open>for\<close>, tuple unpacking): sequences yield their elements, a string its
  characters, a dictionary its keys; the other values are not iterable.\<close>

definition iterate :: "pyval \<Rightarrow> pyerr + pyval list" where
  "iterate v =
     (case v of
        PList xs \<Rightarrow> Inr xs
      | PTuple xs \<Rightarrow> Inr xs
      | PStr s \<Rightarrow> Inr (map (\<lambda>c. PStr [c]) s)
      | PDict kvs \<Rightarrow> Inr (map PStr (remdups (map fst kvs)))
      | _ \<Rightarrow> Inl TypeError)"

text \<open>\<open>a, b, c, d = v\<close>: \<open>ValueError\<close> unless \<open>v\<close> yields exactly four items.\<close>

definition unpack4 :: "pyval \<Rightarrow> pyerr + (pyval \<times> pyval \<times> pyval \<times> pyval)" where
  "unpack4 v =
     bind_err (iterate v) (\<lambda>xs.
       case xs of [a, b, c, d] \<Rightarrow> Inr (a, b, c, d) | _ \<Rightarrow> Inl ValueError)"

text \<open>\<open>v[i]\<close> for the non-negative integer literals the source uses (\<open>0\<close> and \<open>1\<close>).\<close>

definition index_nat :: "pyval \<Rightarrow> nat \<Rightarrow> pyerr + pyval" where
  "index_nat v i =
     (case v of
        PList xs \<Rightarrow> (if i < length xs then Inr (xs ! i) else Inl IndexError)
      | PTuple xs \<Rightarrow> (if i < length xs then Inr (xs ! i) else Inl IndexError)
      | PStr s \<Rightarrow> (if i < length s then Inr (PStr [s ! i]) else Inl IndexError)
      | PDict kvs \<Rightarrow> Inl KeyError
      | _ \<Rightarrow> Inl TypeError)"

section \<open>The slice of Python and pynput the program calls\<close>

text \<open>
  Three things the source uses are not defined in it and are taken as parameters:
  \<^item> \<open>py_str\<close>: the built-in \<open>str\<close> (used on a key by \<open>serialize_key\<close>, and by
    \<open>KeyCode.from_char\<close> to turn a character that is not a string into text);
  \<^item> \<open>Key_attrs\<close>: attribute lookup on the class \<open>keyboard.Key\<close>, that is what
    \<open>getattr(keyboard.Key, name)\<close> returns, \<open>None\<close> where it raises \<open>AttributeError\<close>;
  \<^item> \<open>Button_attrs\<close>: the same for the class \<open>mouse.Button\<close>.
  The members of both enumerations depend on the platform.
\<close>

record runtime =
  py_str :: "pyval \<Rightarrow> string"
  Key_attrs :: "string \<Rightarrow> pyval option"
  Button_attrs :: "string \<Rightarrow> pyval option"

text \<open>\<open>hasattr(key, 'char')\<close> and \<open>key.char\<close>: only key codes have the attribute.\<close>

definition char_attr :: "pyval \<Rightarrow> string option option" where
  "char_attr key = (case key of KeyCode c v d \<Rightarrow> Some c | _ \<Rightarrow> None)"

text \<open>\<open>key.name\<close>: members of an enumeration have a name; on every other value the access
  raises \<open>AttributeError\<close>.\<close>

definition name_attr :: "pyval \<Rightarrow> pyerr + string" where
  "name_attr v = (case v of Key n \<Rightarrow> Inr n | Button n \<Rightarrow> Inr n | _ \<Rightarrow> Inl AttributeError)"

text \<open>\<open>KeyCode.from_char(c)\<close> builds \<open>KeyCode(char=c)\<close>: no virtual key code, not a dead key;
  the constructor keeps \<open>None\<close> and turns every other character into text.\<close>

definition from_char :: "runtime \<Rightarrow> pyval \<Rightarrow> pyval" where
  "from_char rt c =
     (case c of
        PNone \<Rightarrow> KeyCode None None False
      | PStr s \<Rightarrow> KeyCode (Some s) None False
      | _ \<Rightarrow> KeyCode (Some (py_str rt c)) None False)"

text \<open>\<open>getattr(cls, name)\<close> on a class with the attributes \<open>ns\<close>.\<close>

definition getattr_cls :: "(string \<Rightarrow> pyval option) \<Rightarrow> pyval \<Rightarrow> pyerr + pyval" where
  "getattr_cls ns name =
     (case name of
        PStr n \<Rightarrow> (case ns n of Some v \<Rightarrow> Inr v | None \<Rightarrow> Inl AttributeError)
      | _ \<Rightarrow> Inl TypeError)"

text \<open>\<open>KeyCode.__eq__\<close>: two key codes that both have a character are equal when the
  characters and the dead-key flags agree, otherwise when the virtual key codes agree.
  Enumeration members are equal only to themselves. On the remaining values \<open>key_eq\<close> is
  identity, which implies Python's \<open>==\<close>.\<close>

fun key_eq :: "pyval \<Rightarrow> pyval \<Rightarrow> bool" where
  "key_eq (KeyCode c v d) (KeyCode c' v' d') =
     (if c \<noteq> None \<and> c' \<noteq> None then c = c' \<and> d = d' else v = v')"
| "key_eq a b = (a = b)"

text \<open>Equality of two event tuples: componentwise, the payload up to \<open>key_eq\<close>.\<close>

fun event_eq :: "event \<Rightarrow> event \<Rightarrow> bool" where
  "event_eq (t, ty, d) (t', ty', d') = (t = t' \<and> ty = ty' \<and> key_eq d d')"

section \<open>The codec\<close>

definition serialize_key :: "runtime \<Rightarrow> pyval \<Rightarrow> pyval" where
  "serialize_key rt key =
     (case char_attr key of
        Some (Some c) \<Rightarrow> PDict [(''vtype'', PStr ''KeyCode''), (''char'', PStr c)]
      | _ \<Rightarrow>
          (case name_attr key of
             Inr n \<Rightarrow> PDict [(''vtype'', PStr ''Key''), (''name'', PStr n)]
           | Inl e \<Rightarrow> PDict [(''vtype'', PStr ''str''), (''value'', PStr (py_str rt key))]))"

definition deserialize_key :: "runtime \<Rightarrow> pyval \<Rightarrow> pyerr + pyval" where
  "deserialize_key rt data =
     bind_err (getitem data ''vtype'') (\<lambda>vt.
       if vt = PStr ''KeyCode'' then
         bind_err (getitem data ''char'') (\<lambda>c. Inr (from_char rt c))
       else if vt = PStr ''Key'' then
         bind_err (getitem data ''name'') (\<lambda>n. getattr_cls (Key_attrs rt) n)
       else
         bind_err (get_default data ''value'' (PStr [])) (\<lambda>v. Inr (from_char rt v)))"

definition serialize_mouse_button :: "pyval \<Rightarrow> pyerr + pyval" where
  "serialize_mouse_button button = bind_err (name_attr button) (\<lambda>n. Inr (PStr n))"

definition deserialize_mouse_button :: "runtime \<Rightarrow> pyval \<Rightarrow> pyerr + pyval" where
  "deserialize_mouse_button rt name = getattr_cls (Button_attrs rt) name"

definition serialize_event :: "runtime \<Rightarrow> event \<Rightarrow> pyerr + pyval" where
  "serialize_event rt event =
     (case event of (event_time, event_type, event_data) \<Rightarrow>
        let result = [(''time'', event_time), (''type'', event_type)] in
        if event_type = PStr ''key_press'' \<or> event_type = PStr ''key_release'' then
          Inr (PDict (result @ [(''data'', serialize_key rt event_data)]))
        else if event_type = PStr ''mouse_move'' then
          bind_err (index_nat event_data 0) (\<lambda>x.
          bind_err (index_nat event_data 1) (\<lambda>y.
            Inr (PDict (result @ [(''data'', PDict [(''x'', x), (''y'', y)])]))))
        else if event_type = PStr ''mouse_click'' then
          bind_err (unpack4 event_data) (\<lambda>(x, y, button, pressed).
          bind_err (serialize_mouse_button button) (\<lambda>b.
            Inr (PDict (result @ [(''data'',
              PDict [(''x'', x), (''y'', y), (''button'', b), (''pressed'', pressed)])]))))
        else if event_type = PStr ''mouse_scroll'' then
          bind_err (unpack4 event_data) (\<lambda>(x, y, dx, dy).
            Inr (PDict (result @ [(''data'',
              PDict [(''x'', x), (''y'', y), (''dx'', dx), (''dy'', dy)])])))
        else
          Inr (PDict (result @ [(''data'', event_data)])))"

definition deserialize_event :: "runtime \<Rightarrow> pyval \<Rightarrow> pyerr + event" where
  "deserialize_event rt event_dict =
     bind_err (getitem event_dict ''time'') (\<lambda>event_time.
     bind_err (getitem event_dict ''type'') (\<lambda>event_type.
     bind_err (getitem event_dict ''data'') (\<lambda>data.
       if event_type = PStr ''key_press'' \<or> event_type = PStr ''key_release'' then
         bind_err (deserialize_key rt data) (\<lambda>key. Inr (event_time, event_type, key))
       else if event_type = PStr ''mouse_move'' then
         bind_err (getitem data ''x'') (\<lambda>x.
         bind_err (getitem data ''y'') (\<lambda>y.
           Inr (event_time, event_type, PTuple [x, y])))
       else if event_type = PStr ''mouse_click'' then
         bind_err (getitem data ''button'') (\<lambda>name.
         bind_err (deserialize_mouse_button rt name) (\<lambda>button.
         bind_err (getitem data ''x'') (\<lambda>x.
         bind_err (getitem data ''y'') (\<lambda>y.
         bind_err (getitem data ''pressed'') (\<lambda>pressed.
           Inr (event_time, event_type, PTuple [x, y, button, pressed]))))))
       else if event_type = PStr ''mouse_scroll'' then
         bind_err (getitem data ''x'') (\<lambda>x.
         bind_err (getitem data ''y'') (\<lambda>y.
         bind_err (getitem data ''dx'') (\<lambda>dx.
         bind_err (getitem data ''dy'') (\<lambda>dy.
           Inr (event_time, event_type, PTuple [x, y, dx, dy])))))
       else
         Inr (event_time, event_type, data))))"

text \<open>The two list comprehensions of \<open>save_macro\<close> and \<open>play_macro\<close>: the first element that
  raises aborts the comprehension.\<close>

fun map_err :: "('a \<Rightarrow> pyerr + 'b) \<Rightarrow> 'a list \<Rightarrow> pyerr + 'b list" where
  "map_err f [] = Inr []"
| "map_err f (x # xs) =
     (case f x of
        Inl e \<Rightarrow> Inl e
      | Inr y \<Rightarrow> (case map_err f xs of Inl e \<Rightarrow> Inl e | Inr ys \<Rightarrow> Inr (y # ys)))"

definition encode :: "runtime \<Rightarrow> event list \<Rightarrow> pyerr + pyval" where
  "encode rt events = bind_err (map_err (serialize_event rt) events) (\<lambda>js. Inr (PList js))"

definition decode :: "runtime \<Rightarrow> pyval \<Rightarrow> pyerr + event list" where
  "decode rt json_events =
     bind_err (iterate json_events) (\<lambda>js. map_err (deserialize_event rt) js)"

section \<open>Playback\<close>

text \<open>
  The calls \<open>MacroPlayer.play\<close> can make on the two pynput controllers, and what it does that
  an observer can see: it sleeps, it issues a controller call, it prints the message of a
  caught exception. \<open>MouseMove\<close> is the controller's pointer-move call; it is part of the
  interface although \<open>play\<close> has no branch that issues it.
\<close>

datatype call =
    KbPress pyval
  | KbRelease pyval
  | MousePress pyval
  | MouseRelease pyval
  | MouseScroll pyval pyval
  | MouseMove pyval pyval

datatype action = Sleep real | Call call | Print

datatype outcome = Finished | Cancelled | Crashed pyerr | LoadFailed pyerr

text \<open>
  What \<open>play\<close> reads from outside itself, indexed by the iteration of its loop (from 0):
  \<^item> \<open>elapsed i\<close>: the value of \<open>time.time() - start_time\<close> read in iteration \<open>i\<close>;
  \<^item> \<open>stop_req k\<close>: the value of \<open>self._stop\<close> at its \<open>k\<close>-th read; iteration \<open>i\<close> reads it
    twice, at \<open>2 * i\<close> (top of the loop) and at \<open>2 * i + 1\<close> (after the wait);
  \<^item> \<open>os_raises i\<close>: whether the controller call issued in iteration \<open>i\<close> raises.
\<close>

record env =
  elapsed :: "nat \<Rightarrow> real"
  stop_req :: "nat \<Rightarrow> bool"
  os_raises :: "nat \<Rightarrow> bool"

text \<open>The operand of \<open>event_time - (time.time() - start_time)\<close> must be a number
  (\<open>bool\<close> is one in Python); anything else raises \<open>TypeError\<close>.\<close>

definition num_of :: "pyval \<Rightarrow> pyerr + real" where
  "num_of v =
     (case v of
        PInt i \<Rightarrow> Inr (of_int i)
      | PFloat r \<Rightarrow> Inr r
      | PBool b \<Rightarrow> Inr (if b then 1 else 0)
      | _ \<Rightarrow> Inl TypeError)"

text \<open>Truth value of \<open>if pressed:\<close>.\<close>

definition truthy :: "pyval \<Rightarrow> bool" where
  "truthy v =
     (case v of
        PNone \<Rightarrow> False
      | PBool b \<Rightarrow> b
      | PInt i \<Rightarrow> i \<noteq> 0
      | PFloat r \<Rightarrow> r \<noteq> 0
      | PStr s \<Rightarrow> s \<noteq> []
      | PList xs \<Rightarrow> xs \<noteq> []
      | PTuple xs \<Rightarrow> xs \<noteq> []
      | PDict kvs \<Rightarrow> kvs \<noteq> []
      | _ \<Rightarrow> True)"

text \<open>
  The \<open>if\<close>/\<open>elif\<close> chain of \<open>play\<close> (source lines 155 to 173) in iteration \<open>i\<close>: the actions
  it performs and the exception that leaves it, if any. Only the two keyboard branches
  have a \<open>try\<close>/\<open>except\<close>.
\<close>

definition synthesize :: "env \<Rightarrow> nat \<Rightarrow> pyval \<Rightarrow> pyval \<Rightarrow> action list \<times> pyerr option" where
  "synthesize ev i event_type event_data =
     (if event_type = PStr ''key_press'' then
        (if os_raises ev i then ([Call (KbPress event_data), Print], None)
         else ([Call (KbPress event_data)], None))
      else if event_type = PStr ''key_release'' then
        (if os_raises ev i then ([Call (KbRelease event_data), Print], None)
         else ([Call (KbRelease event_data)], None))
      else if event_type = PStr ''mouse_click'' then
        (case unpack4 event_data of
           Inl e \<Rightarrow> ([], Some e)
         | Inr (x, y, button, pressed) \<Rightarrow>
             let c = (if truthy pressed then MousePress button else MouseRelease button) in
             if os_raises ev i then ([Call c], Some SynthesisError) else ([Call c], None))
      else if event_type = PStr ''mouse_scroll'' then
        (case unpack4 event_data of
           Inl e \<Rightarrow> ([], Some e)
         | Inr (x, y, dx, dy) \<Rightarrow>
             if os_raises ev i then ([Call (MouseScroll dx dy)], Some SynthesisError)
             else ([Call (MouseScroll dx dy)], None))
      else ([], None))"

text \<open>The \<open>for\<close> loop of \<open>play\<close> from iteration \<open>i\<close> on.\<close>

fun play_from :: "env \<Rightarrow> nat \<Rightarrow> event list \<Rightarrow> action list \<times> outcome" where
  "play_from ev i [] = ([], Finished)"
| "play_from ev i ((event_time, event_type, event_data) # rest) =
     (if stop_req ev (2 * i) then ([], Cancelled)
      else
        case num_of event_time of
          Inl e \<Rightarrow> ([], Crashed e)
        | Inr t \<Rightarrow>
            let time_to_wait = t - elapsed ev i;
                wait = (if time_to_wait > 0 then [Sleep time_to_wait] else [])
            in
            if stop_req ev (2 * i + 1) then (wait, Cancelled)
            else
              (case synthesize ev i event_type event_data of
                 (acts, Some e) \<Rightarrow> (wait @ acts, Crashed e)
               | (acts, None) \<Rightarrow>
                   (case play_from ev (Suc i) rest of
                      (later, res) \<Rightarrow> (wait @ acts @ later, res))))"

definition play :: "env \<Rightarrow> event list \<Rightarrow> action list \<times> outcome" where
  "play ev events = play_from ev 0 events"

text \<open>
  \<open>MainWindow.play_macro\<close> (source lines 356 to 363) followed by the playback it starts: the
  whole file content is decoded inside one \<open>try\<close>; on any exception the method reports the
  failure and returns, so no player is created.
\<close>

definition play_macro :: "runtime \<Rightarrow> env \<Rightarrow> pyval \<Rightarrow> action list \<times> outcome" where
  "play_macro rt ev json_events =
     (case decode rt json_events of
        Inl e \<Rightarrow> ([], LoadFailed e)
      | Inr events_to_play \<Rightarrow> play ev events_to_play)"

text \<open>The controller calls in a list of actions, and the call that replays one event.\<close>

fun calls_of :: "action list \<Rightarrow> call list" where
  "calls_of [] = []"
| "calls_of (Call c # as) = c # calls_of as"
| "calls_of (a # as) = calls_of as"


fun is_move :: "call \<Rightarrow> bool" where
  "is_move (MouseMove x y) = True"
| "is_move c = False"

section \<open>Recording\<close>

text \<open>
  The attributes of a \<open>MacroRecorder\<close>. \<open>on_stop\<close> records whether a callback is set (the
  callback itself belongs to the window). A listener attribute is \<open>None\<close> before
  \<open>start_recording\<close> has created the listener, and then tells whether the listener has been
  started and not stopped. \<open>stop_hotkey\<close> is the constant \<open>keyboard.Key.f12\<close>.
\<close>

record recorder =
  events :: "event list"
  recording :: bool
  start_time :: "real option"
  hotkey_triggered :: bool
  on_stop :: bool
  keyboard_listener :: "bool option"
  mouse_listener :: "bool option"

definition stop_hotkey :: pyval where
  "stop_hotkey = Key ''f12''"

text \<open>\<open>MacroRecorder.__init__\<close>.\<close>

definition init_recorder :: recorder where
  "init_recorder =
     \<lparr>events = [], recording = False, start_time = None, hotkey_triggered = False,
      on_stop = False, keyboard_listener = None, mouse_listener = None\<rparr>"

text \<open>
  What a method leaves behind besides the new attributes: callbacks handed to
  \<open>QTimer.singleShot(0, ...)\<close>, which the Qt event loop runs later, and calls on the
  listeners or on the \<open>on_stop\<close> callback.
\<close>

datatype qt_callback = StopFromHotkey | OnStop

datatype effect =
    KbListenerStart
  | MouseListenerStart
  | KbListenerStop
  | MouseListenerStop
  | OnStopCalled "event list"

text \<open>
  \<open>start_recording\<close> at time \<open>now\<close>. The two flags say whether \<open>keyboard_listener.start()\<close>
  and \<open>mouse_listener.start()\<close> raise. An exception leaves the method, so the result holds
  the attributes as they are at that point, the effects so far and the exception.
\<close>

definition start_recording ::
  "recorder \<Rightarrow> real \<Rightarrow> bool \<Rightarrow> bool \<Rightarrow> recorder \<times> effect list \<times> pyerr option" where
  "start_recording r now kb_fails mouse_fails =
     (let r1 = r\<lparr>events := [], recording := True, start_time := Some now,
                  hotkey_triggered := False,
                  keyboard_listener := Some False, mouse_listener := Some False\<rparr>
      in
      if kb_fails then (r1, [], Some HookInstallError)
      else
        let r2 = r1\<lparr>keyboard_listener := Some True\<rparr> in
        if mouse_fails then (r2, [KbListenerStart], Some HookInstallError)
        else (r2\<lparr>mouse_listener := Some True\<rparr>, [KbListenerStart, MouseListenerStart], None))"

text \<open>\<open>stop_recording\<close>; the last component is the returned \<open>self.events\<close>.\<close>

definition stop_recording ::
  "recorder \<Rightarrow> pyerr + (recorder \<times> qt_callback list \<times> effect list \<times> event list)" where
  "stop_recording r =
     (if \<not> recording r then Inr (r, [], [], events r)
      else
        case keyboard_listener r of
          None \<Rightarrow> Inl AttributeError
        | Some kb \<Rightarrow>
            (case mouse_listener r of
               None \<Rightarrow> Inl AttributeError
             | Some ms \<Rightarrow>
                 let r' = r\<lparr>recording := False, keyboard_listener := Some False,
                              mouse_listener := Some False\<rparr>
                 in Inr (r', (if on_stop r then [OnStop] else []),
                         [KbListenerStop, MouseListenerStop], events r')))"

definition stop_recording_from_hotkey ::
  "recorder \<Rightarrow> pyerr + (recorder \<times> qt_callback list \<times> effect list)" where
  "stop_recording_from_hotkey r =
     (if recording r then
        bind_err (stop_recording r) (\<lambda>(r', cbs, fx, evs). Inr (r', cbs, fx))
      else Inr (r, [], []))"

text \<open>\<open>record_event\<close> at time \<open>now\<close>; subtracting an unset \<open>start_time\<close> raises.\<close>

definition record_event :: "recorder \<Rightarrow> real \<Rightarrow> string \<Rightarrow> pyval \<Rightarrow> pyerr + recorder" where
  "record_event r now event_type event_data =
     (if \<not> recording r then Inr r
      else
        case start_time r of
          None \<Rightarrow> Inl TypeError
        | Some st \<Rightarrow>
            Inr (r\<lparr>events := events r @ [(PFloat (now - st), PStr event_type, event_data)]\<rparr>))"

definition on_key_press ::
  "recorder \<Rightarrow> real \<Rightarrow> pyval \<Rightarrow> pyerr + (recorder \<times> qt_callback list)" where
  "on_key_press r now key =
     (if key_eq key stop_hotkey then
        (if \<not> hotkey_triggered r then Inr (r\<lparr>hotkey_triggered := True\<rparr>, [StopFromHotkey])
         else Inr (r, []))
      else bind_err (record_event r now ''key_press'' key) (\<lambda>r'. Inr (r', [])))"

definition on_key_release ::
  "recorder \<Rightarrow> real \<Rightarrow> pyval \<Rightarrow> pyerr + (recorder \<times> qt_callback list)" where
  "on_key_release r now key =
     (if key_eq key stop_hotkey then Inr (r, [])
      else bind_err (record_event r now ''key_release'' key) (\<lambda>r'. Inr (r', [])))"

definition on_click ::
  "recorder \<Rightarrow> real \<Rightarrow> pyval \<Rightarrow> pyval \<Rightarrow> pyval \<Rightarrow> pyval \<Rightarrow> pyerr + (recorder \<times> qt_callback list)"
  where
  "on_click r now x y button pressed =
     bind_err (record_event r now ''mouse_click'' (PTuple [x, y, button, pressed]))
       (\<lambda>r'. Inr (r', []))"

definition on_scroll ::
  "recorder \<Rightarrow> real \<Rightarrow> pyval \<Rightarrow> pyval \<Rightarrow> pyval \<Rightarrow> pyval \<Rightarrow> pyerr + (recorder \<times> qt_callback list)"
  where
  "on_scroll r now x y dx dy =
     bind_err (record_event r now ''mouse_scroll'' (PTuple [x, y, dx, dy]))
       (\<lambda>r'. Inr (r', []))"

text \<open>
  What the operating system reports to the two listeners, and the callback each report
  reaches. \<open>start_recording\<close> gives the keyboard listener \<open>on_press\<close> and \<open>on_release\<close> and the
  mouse listener \<open>on_click\<close> and \<open>on_scroll\<close>; it passes no \<open>on_move\<close>, so a pointer move
  reaches no method of the recorder.
\<close>

datatype notification =
    KeyPressed pyval
  | KeyReleased pyval
  | PointerMoved pyval pyval
  | Clicked pyval pyval pyval pyval
  | Scrolled pyval pyval pyval pyval

fun deliver ::
  "recorder \<Rightarrow> real \<Rightarrow> notification \<Rightarrow> pyerr + (recorder \<times> qt_callback list)" where
  "deliver r now (KeyPressed k) = on_key_press r now k"
| "deliver r now (KeyReleased k) = on_key_release r now k"
| "deliver r now (PointerMoved x y) = Inr (r, [])"
| "deliver r now (Clicked x y b p) = on_click r now x y b p"
| "deliver r now (Scrolled x y dx dy) = on_scroll r now x y dx dy"

text \<open>
  A capture session: the recorder, the single-shot callbacks waiting in the Qt event loop
  (oldest first) and the effects so far. Its inputs are a notification at a time, a call of
  \<open>stop_recording\<close> from the window, and the event loop running its oldest waiting callback.
\<close>

record session =
  rec_of :: recorder
  queue :: "qt_callback list"
  effects :: "effect list"

datatype input = Notify real notification | UiStop | QtRun

fun step :: "session \<Rightarrow> input \<Rightarrow> pyerr + session" where
  "step s (Notify now n) =
     bind_err (deliver (rec_of s) now n) (\<lambda>(r', cbs).
       Inr (s\<lparr>rec_of := r', queue := queue s @ cbs\<rparr>))"
| "step s UiStop =
     bind_err (stop_recording (rec_of s)) (\<lambda>(r', cbs, fx, evs).
       Inr (s\<lparr>rec_of := r', queue := queue s @ cbs, effects := effects s @ fx\<rparr>))"
| "step s QtRun =
     (case queue s of
        [] \<Rightarrow> Inr s
      | StopFromHotkey # q \<Rightarrow>
          bind_err (stop_recording_from_hotkey (rec_of s)) (\<lambda>(r', cbs, fx).
            Inr (s\<lparr>rec_of := r', queue := q @ cbs, effects := effects s @ fx\<rparr>))
      | OnStop # q \<Rightarrow>
          Inr (s\<lparr>queue := q, effects := effects s @ [OnStopCalled (events (rec_of s))]\<rparr>))"

fun run :: "session \<Rightarrow> input list \<Rightarrow> pyerr + session" where
  "run s [] = Inr s"
| "run s (i # is) = bind_err (step s i) (\<lambda>s'. run s' is)"

text \<open>The session a successful \<open>start_recording\<close> at time \<open>now\<close> opens.\<close>

definition started :: "recorder \<Rightarrow> real \<Rightarrow> session" where
  "started r now =
     (case start_recording r now False False of
        (r', fx, err) \<Rightarrow> \<lparr>rec_of = r', queue = [], effects = fx\<rparr>)"

fun is_on_stop_called :: "effect \<Rightarrow> bool" where
  "is_on_stop_called (OnStopCalled evs) = True"
| "is_on_stop_called e = False"

section \<open>Predicates of the claims\<close>

text \<open>Reading a field of a dictionary without raising.\<close>

definition field :: "pyval \<Rightarrow> string \<Rightarrow> pyval option" where
  "field d k = (case d of PDict kvs \<Rightarrow> map_of kvs k | _ \<Rightarrow> None)"

text \<open>A value with exactly four components, as the recorder and the decoder build the
  payloads of click and scroll events.\<close>

definition four_tuple :: "pyval \<Rightarrow> bool" where
  "four_tuple d = (case d of PTuple [a, b, c, e] \<Rightarrow> True | _ \<Rightarrow> False)"

definition key_kind :: "pyval \<Rightarrow> bool" where
  "key_kind ty = (ty = PStr ''key_press'' \<or> ty = PStr ''key_release'')"

text \<open>
  The events the codec reproduces: a key event whose key is a key code with a character
  that is not a dead key, or a member of \<open>keyboard.Key\<close> found under its name; a pointer-move
  event with a pair; a click with a four-tuple whose button is a member of \<open>mouse.Button\<close>
  found under its name; a scroll with a four-tuple.
\<close>

definition codec_exact :: "runtime \<Rightarrow> event \<Rightarrow> bool" where
  "codec_exact rt e =
     (case e of (t, ty, d) \<Rightarrow>
        if key_kind ty then
          (case d of
             KeyCode (Some c) v dead \<Rightarrow> \<not> dead
           | Key n \<Rightarrow> Key_attrs rt n = Some (Key n)
           | _ \<Rightarrow> False)
        else if ty = PStr ''mouse_move'' then
          (case d of PTuple [x, y] \<Rightarrow> True | _ \<Rightarrow> False)
        else if ty = PStr ''mouse_click'' then
          (case d of
             PTuple [x, y, button, pressed] \<Rightarrow>
               (case button of Button n \<Rightarrow> Button_attrs rt n = Some (Button n) | _ \<Rightarrow> False)
           | _ \<Rightarrow> False)
        else if ty = PStr ''mouse_scroll'' then four_tuple d
        else False)"

text \<open>\<open>decode(encode(e)) == e\<close> for one event and for a sequence.\<close>

definition round_trip :: "runtime \<Rightarrow> event \<Rightarrow> bool" where
  "round_trip rt e =
     (case serialize_event rt e of
        Inl err \<Rightarrow> False
      | Inr j \<Rightarrow> (case deserialize_event rt j of Inl err \<Rightarrow> False | Inr e' \<Rightarrow> event_eq e' e))"

definition round_trip_seq :: "runtime \<Rightarrow> event list \<Rightarrow> bool" where
  "round_trip_seq rt s =
     (case encode rt s of
        Inl err \<Rightarrow> False
      | Inr js \<Rightarrow> (case decode rt js of Inl err \<Rightarrow> False | Inr s' \<Rightarrow> list_all2 event_eq s' s))"

text \<open>A name under which \<open>getattr\<close> finds nothing in the class with the attributes \<open>ns\<close>.\<close>

definition bad_name :: "(string \<Rightarrow> pyval option) \<Rightarrow> pyval \<Rightarrow> bool" where
  "bad_name ns v = (case v of PStr n \<Rightarrow> ns n = None | _ \<Rightarrow> True)"

text \<open>
  An entry of a Macro file that lacks a field the format requires or names a key or button
  the class does not have: \<open>time\<close>, \<open>type\<close> and \<open>data\<close> for every entry; for a key event
  \<open>vtype\<close>, then \<open>char\<close> under \<open>KeyCode\<close> and a known \<open>name\<close> under \<open>Key\<close>; for a pointer
  event its coordinates, and a known \<open>button\<close> and \<open>pressed\<close>, or \<open>dx\<close> and \<open>dy\<close>.
\<close>

definition payload_malformed :: "runtime \<Rightarrow> pyval \<Rightarrow> pyval \<Rightarrow> bool" where
  "payload_malformed rt ty data =
     (if key_kind ty then
        (case field data ''vtype'' of
           None \<Rightarrow> True
         | Some vt \<Rightarrow>
             if vt = PStr ''KeyCode'' then field data ''char'' = None
             else if vt = PStr ''Key'' then
               (case field data ''name'' of
                  None \<Rightarrow> True
                | Some n \<Rightarrow> bad_name (Key_attrs rt) n)
             else False)
      else if ty = PStr ''mouse_move'' then
        field data ''x'' = None \<or> field data ''y'' = None
      else if ty = PStr ''mouse_click'' then
        (case field data ''button'' of
           None \<Rightarrow> True
         | Some n \<Rightarrow> bad_name (Button_attrs rt) n)
        \<or> field data ''x'' = None \<or> field data ''y'' = None \<or> field data ''pressed'' = None
      else if ty = PStr ''mouse_scroll'' then
        field data ''x'' = None \<or> field data ''y'' = None
        \<or> field data ''dx'' = None \<or> field data ''dy'' = None
      else False)"

definition malformed :: "runtime \<Rightarrow> pyval \<Rightarrow> bool" where
  "malformed rt e =
     (case field e ''time'' of
        None \<Rightarrow> True
      | Some t \<Rightarrow>
          (case field e ''type'' of
             None \<Rightarrow> True
           | Some ty \<Rightarrow>
               (case field e ''data'' of
                  None \<Rightarrow> True
                | Some data \<Rightarrow> payload_malformed rt ty data)))"

definition load_failed :: "action list \<times> outcome \<Rightarrow> bool" where
  "load_failed res = (case res of (acts, LoadFailed e) \<Rightarrow> acts = [] | _ \<Rightarrow> False)"







text \<open>No pointer-move call among the actions.\<close>

definition no_move :: "action list \<Rightarrow> bool" where
  "no_move as = (\<not> list_ex is_move (calls_of as))"

text \<open>
  What holds of a capture session from its start on, \<open>cb\<close> telling whether the window set
  the \<open>on_stop\<close> callback: the start time and both listeners exist; no recorded event carries
  the stop key or is a pointer move; the listeners were stopped once if the recorder is no
  longer recording and never otherwise; and the \<open>on_stop\<close> callbacks waiting or already run
  are as many as the stops, when a callback is set.
\<close>

definition stops :: "session \<Rightarrow> nat" where
  "stops s = count_list (effects s) KbListenerStop"

definition finalized :: "session \<Rightarrow> nat" where
  "finalized s = count_list (queue s) OnStop + length (filter is_on_stop_called (effects s))"

definition session_inv :: "bool \<Rightarrow> session \<Rightarrow> bool" where
  "session_inv cb s =
     (start_time (rec_of s) \<noteq> None
      \<and> keyboard_listener (rec_of s) \<noteq> None
      \<and> mouse_listener (rec_of s) \<noteq> None
      \<and> on_stop (rec_of s) = cb
      \<and> list_all (\<lambda>e. snd (snd e) \<noteq> stop_hotkey \<and> fst (snd e) \<noteq> PStr ''mouse_move'')
           (events (rec_of s))
      \<and> stops s = (if recording (rec_of s) then 0 else 1)
      \<and> count_list (effects s) MouseListenerStop = stops s
      \<and> finalized s = (if cb then stops s else 0))"

section \<open>Sample inputs\<close>

text \<open>
  A runtime for the worked examples. \<open>sample_str\<close> agrees with \<open>str\<close> on \<open>None\<close>, booleans,
  integers, strings, enumeration members and key codes without a character (pynput prints
  those as the virtual key code in angle brackets); the examples render no other value.
  The two classes are excerpts: some members, and the attribute \<open>__name__\<close> that every
  Python class has.
\<close>

fun dec :: "nat \<Rightarrow> string" where
  "dec n = (if n < 10 then [char_of (48 + n)] else dec (n div 10) @ [char_of (48 + n mod 10)])"

definition sample_str :: "pyval \<Rightarrow> string" where
  "sample_str v =
     (case v of
        PNone \<Rightarrow> ''None''
      | PBool b \<Rightarrow> (if b then ''True'' else ''False'')
      | PInt i \<Rightarrow> (if i < 0 then ''-'' @ dec (nat (- i)) else dec (nat i))
      | PStr s \<Rightarrow> s
      | KeyCode None (Some n) d \<Rightarrow> ''<'' @ dec (nat n) @ ''>''
      | Key n \<Rightarrow> ''Key.'' @ n
      | Button n \<Rightarrow> ''Button.'' @ n
      | _ \<Rightarrow> [])"

definition sample_runtime :: runtime where
  "sample_runtime =
     \<lparr>py_str = sample_str,
      Key_attrs = map_of [(''f12'', Key ''f12''), (''enter'', Key ''enter''),
                          (''shift'', Key ''shift''), (''__name__'', PStr ''Key'')],
      Button_attrs = map_of [(''unknown'', Button ''unknown''), (''left'', Button ''left''),
                             (''middle'', Button ''middle''), (''right'', Button ''right''),
                             (''__name__'', PStr ''Button'')]\<rparr>"

text \<open>An environment in which playback is never late, never cancelled and no call raises;
  one in which the call of the first iteration raises; one cancelled from read \<open>c\<close> on.\<close>

definition calm_env :: env where
  "calm_env = \<lparr>elapsed = (\<lambda>i. 0), stop_req = (\<lambda>k. False), os_raises = (\<lambda>i. False)\<rparr>"

definition first_call_fails :: env where
  "first_call_fails = \<lparr>elapsed = (\<lambda>i. 0), stop_req = (\<lambda>k. False), os_raises = (\<lambda>i. i = 0)\<rparr>"


section \<open>Properties of the codec\<close>

declare dec.simps [simp del]

lemma key_eq_refl_enum: "key_eq (Key n) k = (k = Key n)" "key_eq (Button n) k = (k = Button n)"
  by (cases k; auto)+

lemma round_trip_key:
  assumes "key_kind ty" "codec_exact rt (t, ty, d)"
  shows "round_trip rt (t, ty, d)"
  using assms
  by (auto simp: codec_exact_def round_trip_def serialize_event_def serialize_key_def
      char_attr_def name_attr_def deserialize_event_def deserialize_key_def bind_err_def
      getitem_def from_char_def getattr_cls_def key_kind_def
      split: pyval.splits option.splits if_splits)

lemma round_trip_move:
  assumes "codec_exact rt (t, PStr ''mouse_move'', d)"
  shows "round_trip rt (t, PStr ''mouse_move'', d)"
  using assms
  by (auto simp: codec_exact_def round_trip_def serialize_event_def index_nat_def
      deserialize_event_def bind_err_def getitem_def key_kind_def
      split: pyval.splits list.splits)

lemma round_trip_click:
  assumes "codec_exact rt (t, PStr ''mouse_click'', d)"
  shows "round_trip rt (t, PStr ''mouse_click'', d)"
  using assms
  by (auto simp: codec_exact_def round_trip_def serialize_event_def unpack4_def iterate_def
      serialize_mouse_button_def name_attr_def deserialize_mouse_button_def getattr_cls_def
      deserialize_event_def bind_err_def getitem_def key_kind_def
      split: pyval.splits list.splits)

lemma round_trip_scroll:
  assumes "codec_exact rt (t, PStr ''mouse_scroll'', d)"
  shows "round_trip rt (t, PStr ''mouse_scroll'', d)"
  using assms
  by (auto simp: codec_exact_def round_trip_def serialize_event_def unpack4_def iterate_def
      four_tuple_def deserialize_event_def bind_err_def getitem_def key_kind_def
      split: pyval.splits list.splits)

lemma round_trip_event: "codec_exact rt e \<Longrightarrow> round_trip rt e"
proof -
  assume a: "codec_exact rt e"
  obtain t ty d where e: "e = (t, ty, d)" by (cases e) auto
  consider "key_kind ty" | "ty = PStr ''mouse_move''" | "ty = PStr ''mouse_click''"
    | "ty = PStr ''mouse_scroll''"
    using a unfolding e codec_exact_def by (auto split: if_splits)
  then show ?thesis
    using a e round_trip_key round_trip_move round_trip_click round_trip_scroll
    by cases auto
qed


lemma map_err_fails:
  "x \<in> set xs \<Longrightarrow> f x = Inl e \<Longrightarrow> \<exists>e'. map_err f xs = Inl e'"
  by (induction xs) (auto split: sum.splits)

lemma round_trip_list:
  "list_all (codec_exact rt) s \<Longrightarrow>
   \<exists>js s'. map_err (serialize_event rt) s = Inr js
     \<and> map_err (deserialize_event rt) js = Inr s' \<and> list_all2 event_eq s' s"
proof (induction s)
  case Nil
  then show ?case by simp
next
  case (Cons e s)
  from Cons.prems have "round_trip rt e" by (simp add: round_trip_event)
  then obtain j e' where j: "serialize_event rt e = Inr j"
    and e': "deserialize_event rt j = Inr e'" and eq: "event_eq e' e"
    by (auto simp: round_trip_def split: sum.splits)
  from Cons obtain js s' where js: "map_err (serialize_event rt) s = Inr js"
    and s': "map_err (deserialize_event rt) js = Inr s'" and eqs: "list_all2 event_eq s' s"
    by auto
  show ?case using j e' eq js s' eqs by simp
qed

lemma round_trip_sequence: "list_all (codec_exact rt) s \<Longrightarrow> round_trip_seq rt s"
proof -
  assume "list_all (codec_exact rt) s"
  then obtain js s' where "map_err (serialize_event rt) s = Inr js"
    "map_err (deserialize_event rt) js = Inr s'" "list_all2 event_eq s' s"
    using round_trip_list by blast
  then show ?thesis
    by (simp add: round_trip_seq_def encode_def decode_def bind_err_def iterate_def)
qed

text \<open>
  Claim C1, as the code has it. Decoding the encoding of an event gives an event equal to the
  original for every event in \<open>codec_exact\<close>: a key press or release whose key is a key code
  with a character (not a dead key) or a named key, a pointer move, a click, a scroll. The
  same holds for every sequence of such events. Key codes without a character and dead keys
  are outside: their encoding is the fallback string or loses the dead-key flag.
\<close>

theorem codec_round_trip:
  "(codec_exact rt e \<longrightarrow> round_trip rt e)
   \<and> (list_all (codec_exact rt) s \<longrightarrow> round_trip_seq rt s)"
  using round_trip_event round_trip_sequence by blast


theorem codec_round_trip_witness:
  "codec_exact sample_runtime (PFloat 0.1, PStr ''key_press'', KeyCode (Some ''a'') (Some 65) False)
   \<and> round_trip sample_runtime
       (PFloat 0.1, PStr ''key_press'', KeyCode (Some ''a'') (Some 65) False)
   \<and> list_all (codec_exact sample_runtime)
       [(PFloat 0.1, PStr ''key_press'', Key ''shift''),
        (PFloat 0.2, PStr ''mouse_click'', PTuple [PInt 3, PInt 4, Button ''left'', PBool True]),
        (PFloat 0.3, PStr ''mouse_scroll'', PTuple [PInt 3, PInt 4, PInt 0, PInt (-1)]),
        (PFloat 0.4, PStr ''mouse_move'', PTuple [PInt 5, PInt 6])]
   \<and> round_trip_seq sample_runtime
       [(PFloat 0.1, PStr ''key_press'', Key ''shift''),
        (PFloat 0.2, PStr ''mouse_click'', PTuple [PInt 3, PInt 4, Button ''left'', PBool True]),
        (PFloat 0.3, PStr ''mouse_scroll'', PTuple [PInt 3, PInt 4, PInt 0, PInt (-1)]),
        (PFloat 0.4, PStr ''mouse_move'', PTuple [PInt 5, PInt 6])]"
proof -
  have a: "codec_exact sample_runtime
      (PFloat 0.1, PStr ''key_press'', KeyCode (Some ''a'') (Some 65) False)"
    by (simp add: codec_exact_def key_kind_def)
  have b: "list_all (codec_exact sample_runtime)
       [(PFloat 0.1, PStr ''key_press'', Key ''shift''),
        (PFloat 0.2, PStr ''mouse_click'', PTuple [PInt 3, PInt 4, Button ''left'', PBool True]),
        (PFloat 0.3, PStr ''mouse_scroll'', PTuple [PInt 3, PInt 4, PInt 0, PInt (-1)]),
        (PFloat 0.4, PStr ''mouse_move'', PTuple [PInt 5, PInt 6])]"
    by (simp add: codec_exact_def key_kind_def four_tuple_def sample_runtime_def)
  from a b codec_round_trip show ?thesis by blast
qed

text \<open>
  The round trip of C1 fails for a key press whose key code has a virtual key code and no
  character: it is stored as the string \<open><65>\<close> and comes back as the key code of that string.
\<close>

theorem key_without_char_not_reproduced:
  "serialize_event sample_runtime
     (PFloat 0.1, PStr ''key_press'', KeyCode None (Some 65) False)
   = Inr (PDict [(''time'', PFloat 0.1), (''type'', PStr ''key_press''),
                 (''data'', PDict [(''vtype'', PStr ''str''), (''value'', PStr ''<65>'')])])
   \<and> deserialize_event sample_runtime
       (PDict [(''time'', PFloat 0.1), (''type'', PStr ''key_press''),
               (''data'', PDict [(''vtype'', PStr ''str''), (''value'', PStr ''<65>'')])])
     = Inr (PFloat 0.1, PStr ''key_press'', KeyCode (Some ''<65>'') None False)
   \<and> \<not> event_eq (PFloat 0.1, PStr ''key_press'', KeyCode (Some ''<65>'') None False)
                  (PFloat 0.1, PStr ''key_press'', KeyCode None (Some 65) False)
   \<and> \<not> round_trip sample_runtime
         (PFloat 0.1, PStr ''key_press'', KeyCode None (Some 65) False)"
  by code_simp

lemma field_dict: "field d k = Some v \<Longrightarrow> \<exists>kvs. d = PDict kvs \<and> map_of kvs k = Some v"
  by (cases d) (auto simp: field_def)


lemma getitem_none: "field d k = None \<Longrightarrow> \<exists>e. getitem d k = Inl e"
  by (cases d) (auto simp: field_def getitem_def)

lemma get_default_dict:
  "get_default (PDict kvs) k dflt
     = Inr (case field (PDict kvs) k of Some v \<Rightarrow> v | None \<Rightarrow> dflt)"
  by (simp add: get_default_def field_def split: option.splits)






section \<open>Loading a Macro file\<close>

lemma bind_err_simps [simp]:
  "bind_err (Inl e) f = Inl e" "bind_err (Inr v) f = f v"
  by (simp_all add: bind_err_def)

lemma getitem_cases:
  "getitem d k = (case field d k of Some v \<Rightarrow> Inr v
     | None \<Rightarrow> Inl (case d of PDict kvs \<Rightarrow> KeyError | _ \<Rightarrow> TypeError))"
  by (cases d) (auto simp: getitem_def field_def split: option.splits)

lemma getattr_cls_fails_iff: "(\<exists>e. getattr_cls ns n = Inl e) \<longleftrightarrow> bad_name ns n"
  by (cases n) (auto simp: getattr_cls_def bad_name_def split: option.splits)

lemma deserialize_key_fails_iff:
  "(\<exists>err. deserialize_key rt data = Inl err) \<longleftrightarrow>
     (case field data ''vtype'' of
        None \<Rightarrow> True
      | Some vt \<Rightarrow>
          if vt = PStr ''KeyCode'' then field data ''char'' = None
          else if vt = PStr ''Key'' then
            (case field data ''name'' of
               None \<Rightarrow> True
             | Some n \<Rightarrow> bad_name (Key_attrs rt) n)
          else False)"
proof (cases "field data ''vtype''")
  case None
  then show ?thesis by (simp add: deserialize_key_def getitem_cases)
next
  case (Some vt)
  then obtain kvs where d: "data = PDict kvs" using field_dict by blast
  show ?thesis
    using Some getattr_cls_fails_iff [of "Key_attrs rt"]
    by (auto simp: deserialize_key_def getitem_cases get_default_dict d split: option.splits)
qed

lemma payload_fails_iff:
  "(\<exists>err. (if key_kind ty then
         bind_err (deserialize_key rt data) (\<lambda>key. Inr (t, ty, key))
       else if ty = PStr ''mouse_move'' then
         bind_err (getitem data ''x'') (\<lambda>x.
         bind_err (getitem data ''y'') (\<lambda>y.
           Inr (t, ty, PTuple [x, y])))
       else if ty = PStr ''mouse_click'' then
         bind_err (getitem data ''button'') (\<lambda>name.
         bind_err (deserialize_mouse_button rt name) (\<lambda>button.
         bind_err (getitem data ''x'') (\<lambda>x.
         bind_err (getitem data ''y'') (\<lambda>y.
         bind_err (getitem data ''pressed'') (\<lambda>pressed.
           Inr (t, ty, PTuple [x, y, button, pressed]))))))
       else if ty = PStr ''mouse_scroll'' then
         bind_err (getitem data ''x'') (\<lambda>x.
         bind_err (getitem data ''y'') (\<lambda>y.
         bind_err (getitem data ''dx'') (\<lambda>dx.
         bind_err (getitem data ''dy'') (\<lambda>dy.
           Inr (t, ty, PTuple [x, y, dx, dy])))))
       else
         Inr (t, ty, data)) = Inl err) \<longleftrightarrow> payload_malformed rt ty data"
proof -
  consider "key_kind ty" | "\<not> key_kind ty" "ty = PStr ''mouse_move''"
    | "\<not> key_kind ty" "ty = PStr ''mouse_click''" | "\<not> key_kind ty" "ty = PStr ''mouse_scroll''"
    | "\<not> key_kind ty" "ty \<noteq> PStr ''mouse_move''" "ty \<noteq> PStr ''mouse_click''"
      "ty \<noteq> PStr ''mouse_scroll''"
    by blast
  then show ?thesis
  proof cases
    case 1
    have "(\<exists>err. bind_err (deserialize_key rt data) (\<lambda>key. Inr (t, ty, key)) = Inl err)
        \<longleftrightarrow> (\<exists>err. deserialize_key rt data = Inl err)"
      by (cases "deserialize_key rt data") auto
    then show ?thesis
      using 1 deserialize_key_fails_iff [of rt data] by (simp add: payload_malformed_def)
  next
    case 2
    then show ?thesis
      by (auto simp: payload_malformed_def getitem_cases split: option.splits)
  next
    case 3
    have b: "(\<exists>e. deserialize_mouse_button rt n = Inl e) \<longleftrightarrow> bad_name (Button_attrs rt) n" for n
      by (simp add: deserialize_mouse_button_def getattr_cls_fails_iff)
    show ?thesis
    proof (cases "field data ''button''")
      case None
      then show ?thesis using 3 by (simp add: payload_malformed_def getitem_cases)
    next
      case (Some n)
      show ?thesis
      proof (cases "deserialize_mouse_button rt n")
        case (Inl e)
        then have "bad_name (Button_attrs rt) n" using b by blast
        then show ?thesis using 3 Some Inl by (simp add: payload_malformed_def getitem_cases)
      next
        case (Inr bt)
        then have "\<not> bad_name (Button_attrs rt) n" using b [of n] by auto
        then show ?thesis using 3 Some Inr
          by (auto simp: payload_malformed_def getitem_cases split: option.splits)
      qed
    qed
  next
    case 4
    then show ?thesis
      by (auto simp: payload_malformed_def getitem_cases split: option.splits)
  next
    case 5
    then show ?thesis by (simp add: payload_malformed_def)
  qed
qed

lemma deserialize_event_fails_iff:
  "(\<exists>err. deserialize_event rt e = Inl err) \<longleftrightarrow> malformed rt e"
proof (cases "field e ''time''")
  case None
  then show ?thesis by (simp add: deserialize_event_def malformed_def getitem_cases)
next
  case t: (Some t)
  show ?thesis
  proof (cases "field e ''type''")
    case None
    then show ?thesis using t by (simp add: deserialize_event_def malformed_def getitem_cases)
  next
    case ty: (Some ty)
    show ?thesis
    proof (cases "field e ''data''")
      case None
      then show ?thesis using t ty
        by (simp add: deserialize_event_def malformed_def getitem_cases)
    next
      case (Some data)
      show ?thesis
        using payload_fails_iff [of ty rt data t]
        by (simp add: deserialize_event_def malformed_def getitem_cases t ty Some
            key_kind_def)
    qed
  qed
qed

lemma map_err_ok:
  "(\<forall>x \<in> set xs. \<exists>y. f x = Inr y) \<Longrightarrow> \<exists>ys. map_err f xs = Inr ys"
proof (induction xs)
  case Nil
  then show ?case by simp
next
  case (Cons x xs)
  then obtain y where y: "f x = Inr y" by auto
  from Cons obtain ys where "map_err f xs = Inr ys" by auto
  with y show ?case by simp
qed

lemma decode_list: "decode rt (PList js) = map_err (deserialize_event rt) js"
  by (simp add: decode_def iterate_def)

lemma malformed_entry_fails_load:
  assumes "e \<in> set js" "malformed rt e"
  shows "load_failed (play_macro rt ev (PList js))"
proof -
  from assms(2) have "\<exists>err. deserialize_event rt e = Inl err"
    by (simp add: deserialize_event_fails_iff)
  then obtain err where "deserialize_event rt e = Inl err" ..
  then have "\<exists>err'. map_err (deserialize_event rt) js = Inl err'"
    by (rule map_err_fails [OF assms(1)])
  then obtain err' where "map_err (deserialize_event rt) js = Inl err'" ..
  then show ?thesis by (simp add: play_macro_def decode_list load_failed_def)
qed

lemma well_formed_entries_load:
  assumes "\<forall>x \<in> set js. \<not> malformed rt x"
  shows "\<exists>evs. decode rt (PList js) = Inr evs"
proof -
  have "\<forall>x \<in> set js. \<exists>y. deserialize_event rt x = Inr y"
  proof
    fix x assume "x \<in> set js"
    with assms have "\<not> malformed rt x" by simp
    then have "\<not> (\<exists>err. deserialize_event rt x = Inl err)"
      by (simp add: deserialize_event_fails_iff)
    then show "\<exists>y. deserialize_event rt x = Inr y"
      by (cases "deserialize_event rt x") auto
  qed
  then show ?thesis unfolding decode_list by (rule map_err_ok)
qed


text \<open>
  Claim C3, as the code has it. An entry fails to decode exactly when it is \<open>malformed\<close>: it
  lacks \<open>time\<close>, \<open>type\<close> or \<open>data\<close>, or a field its kind subscripts, or its key or button name
  is not an attribute of the class. One such entry anywhere in the file makes the load fail,
  and then nothing is played. A file without such an entry loads.
\<close>

theorem malformed_macro_not_played:
  "((\<exists>err. deserialize_event rt e = Inl err) \<longleftrightarrow> malformed rt e)
   \<and> (e \<in> set js \<and> malformed rt e \<longrightarrow> load_failed (play_macro rt ev (PList js)))
   \<and> ((\<forall>x \<in> set js. \<not> malformed rt x) \<longrightarrow> (\<exists>evs. decode rt (PList js) = Inr evs))"
proof (intro conjI impI)
  show "(\<exists>err. deserialize_event rt e = Inl err) \<longleftrightarrow> malformed rt e"
    by (rule deserialize_event_fails_iff)
  show "load_failed (play_macro rt ev (PList js))" if "e \<in> set js \<and> malformed rt e"
  proof -
    from that have "e \<in> set js" and "malformed rt e" by simp_all
    then show ?thesis by (rule malformed_entry_fails_load)
  qed
  show "\<exists>evs. decode rt (PList js) = Inr evs" if "\<forall>x \<in> set js. \<not> malformed rt x"
    using that by (rule well_formed_entries_load)
qed

theorem malformed_macro_not_played_witness:
  "PDict [(''time'', PFloat 0.2), (''data'', PDict [(''x'', PInt 1), (''y'', PInt 2)])]
     \<in> set [PDict [(''time'', PFloat 0.1), (''type'', PStr ''key_press''),
                   (''data'', PDict [(''vtype'', PStr ''KeyCode''), (''char'', PStr ''a'')])],
             PDict [(''time'', PFloat 0.2), (''data'', PDict [(''x'', PInt 1), (''y'', PInt 2)])]]
   \<and> malformed sample_runtime
       (PDict [(''time'', PFloat 0.2), (''data'', PDict [(''x'', PInt 1), (''y'', PInt 2)])])
   \<and> load_failed (play_macro sample_runtime calm_env
       (PList [PDict [(''time'', PFloat 0.1), (''type'', PStr ''key_press''),
                      (''data'', PDict [(''vtype'', PStr ''KeyCode''), (''char'', PStr ''a'')])],
               PDict [(''time'', PFloat 0.2),
                      (''data'', PDict [(''x'', PInt 1), (''y'', PInt 2)])]]))
   \<and> \<not> malformed sample_runtime
         (PDict [(''time'', PFloat 0.1), (''type'', PStr ''key_press''),
                 (''data'', PDict [(''vtype'', PStr ''KeyCode''), (''char'', PStr ''a'')])])
   \<and> (\<exists>evs. decode sample_runtime
         (PList [PDict [(''time'', PFloat 0.1), (''type'', PStr ''key_press''),
                   (''data'', PDict [(''vtype'', PStr ''KeyCode''), (''char'', PStr ''a'')])]])
         = Inr evs)"
proof -
  let ?good = "PDict [(''time'', PFloat 0.1), (''type'', PStr ''key_press''),
                   (''data'', PDict [(''vtype'', PStr ''KeyCode''), (''char'', PStr ''a'')])]"
  let ?bad = "PDict [(''time'', PFloat 0.2), (''data'', PDict [(''x'', PInt 1), (''y'', PInt 2)])]"
  have m: "malformed sample_runtime ?bad"
    by (simp add: malformed_def field_def)
  have g1: "\<not> malformed sample_runtime ?good"
    by (simp add: malformed_def payload_malformed_def field_def key_kind_def)
  then have g: "\<forall>x \<in> set [?good]. \<not> malformed sample_runtime x"
    by simp
  have i: "?bad \<in> set [?good, ?bad]" by simp
  note t1 = malformed_macro_not_played [of sample_runtime ?bad "[?good, ?bad]" calm_env]
  note t2 = malformed_macro_not_played [of sample_runtime ?bad "[?good]" calm_env]
  have l: "load_failed (play_macro sample_runtime calm_env (PList [?good, ?bad]))"
    by (rule t1 [THEN conjunct2, THEN conjunct1, THEN mp, OF conjI [OF i m]])
  have d: "\<exists>evs. decode sample_runtime (PList [?good]) = Inr evs"
    by (rule t2 [THEN conjunct2, THEN conjunct2, THEN mp, OF g])
  show ?thesis
    by (intro conjI) (rule i m l g1 d)+
qed

text \<open>
  Two entries that C3 counts as broken load and are played: a key named \<open>__name__\<close>, which
  is an attribute of the class \<open>keyboard.Key\<close> and no key, decodes to the string \<open>Key\<close>; a
  fallback key payload without \<open>value\<close> decodes to the key code of the empty string.
\<close>

theorem class_attribute_name_is_played:
  "play_macro sample_runtime calm_env
     (PList [PDict [(''time'', PFloat 0), (''type'', PStr ''key_press''),
                    (''data'', PDict [(''vtype'', PStr ''Key''), (''name'', PStr ''__name__'')])]])
     = ([Call (KbPress (PStr ''Key''))], Finished)
   \<and> play_macro sample_runtime calm_env
       (PList [PDict [(''time'', PFloat 0), (''type'', PStr ''key_press''),
                      (''data'', PDict [(''vtype'', PStr ''str'')])]])
     = ([Call (KbPress (KeyCode (Some []) None False))], Finished)"
  by code_simp





section \<open>Properties of playback\<close>

lemma calls_of_append: "calls_of (xs @ ys) = calls_of xs @ calls_of ys"
  by (induction xs rule: calls_of.induct) simp_all














text \<open>
  Claim C2 fails for mouse events. A mouse call that raises ends the loop with the exception
  and the key press after it is never issued; a keyboard call that raises is printed and
  the next event is played.
\<close>

theorem mouse_failure_aborts_playback:
  "play first_call_fails
     [(PFloat 0, PStr ''mouse_click'', PTuple [PInt 5, PInt 6, Button ''left'', PBool True]),
      (PFloat 0, PStr ''key_press'', KeyCode (Some ''a'') None False)]
     = ([Call (MousePress (Button ''left''))], Crashed SynthesisError)
   \<and> play first_call_fails
     [(PFloat 0, PStr ''key_press'', KeyCode (Some ''b'') None False),
      (PFloat 0, PStr ''key_press'', KeyCode (Some ''a'') None False)]
     = ([Call (KbPress (KeyCode (Some ''b'') None False)), Print,
         Call (KbPress (KeyCode (Some ''a'') None False))], Finished)"
  by code_simp

lemma no_move_append: "no_move (xs @ ys) \<longleftrightarrow> no_move xs \<and> no_move ys"
  by (auto simp: no_move_def calls_of_append)

lemma no_move_nil: "no_move []"
  by (simp add: no_move_def)

lemma no_move_wait: "no_move (if c then [Sleep w] else [])"
  by (simp add: no_move_def)

lemma no_move_synthesize: "no_move (fst (synthesize ev i ty d))"
  by (auto simp: synthesize_def no_move_def Let_def split: sum.splits prod.splits)

lemma no_move_play_from: "no_move (fst (play_from ev i es))"
proof (induction es arbitrary: i)
  case Nil
  then show ?case by (simp add: no_move_nil)
next
  case (Cons e es)
  obtain t ty d where e: "e = (t, ty, d)" by (cases e) auto
  obtain acts err where sy: "synthesize ev i ty d = (acts, err)"
    by (cases "synthesize ev i ty d") auto
  have a: "no_move acts" using no_move_synthesize [of ev i ty d] sy by simp
  obtain later res where pl: "play_from ev (Suc i) es = (later, res)"
    by (cases "play_from ev (Suc i) es") auto
  have l: "no_move later" using Cons.IH [of "Suc i"] pl by simp
  show ?case unfolding e
    using a l sy pl
    by (cases err)
       (auto simp: no_move_append no_move_nil no_move_wait Let_def split: sum.splits)
qed

section \<open>Properties of recording\<close>

lemma key_eq_stop: "key_eq k stop_hotkey \<longleftrightarrow> k = stop_hotkey"
  by (cases k) (auto simp: stop_hotkey_def)

lemma record_event_inv:
  assumes "session_inv cb s" "d \<noteq> stop_hotkey" "ty \<noteq> ''mouse_move''"
  shows "\<exists>r'. record_event (rec_of s) now ty d = Inr r'
     \<and> session_inv cb (s\<lparr>rec_of := r'\<rparr>) \<and> recording r' = recording (rec_of s)"
  using assms
  by (auto simp: record_event_def session_inv_def stops_def finalized_def)

lemma deliver_inv:
  assumes "session_inv cb s"
  shows "\<exists>r' cbs. deliver (rec_of s) now n = Inr (r', cbs)
     \<and> session_inv cb (s\<lparr>rec_of := r', queue := queue s @ cbs\<rparr>)
     \<and> recording r' = recording (rec_of s)"
proof (cases n)
  case (KeyPressed k)
  show ?thesis
  proof (cases "k = stop_hotkey")
    case True
    then show ?thesis using assms KeyPressed
      by (auto simp: on_key_press_def key_eq_stop session_inv_def stops_def finalized_def)
  next
    case False
    from record_event_inv [OF assms False, of "''key_press''" now]
    obtain r' where "record_event (rec_of s) now ''key_press'' k = Inr r'"
      "session_inv cb (s\<lparr>rec_of := r'\<rparr>)" "recording r' = recording (rec_of s)"
      by auto
    then show ?thesis using False KeyPressed
      by (simp add: on_key_press_def key_eq_stop bind_err_def)
  qed
next
  case (KeyReleased k)
  show ?thesis
  proof (cases "k = stop_hotkey")
    case True
    then show ?thesis using assms KeyReleased
      by (simp add: on_key_release_def key_eq_stop)
  next
    case False
    from record_event_inv [OF assms False, of "''key_release''" now]
    obtain r' where "record_event (rec_of s) now ''key_release'' k = Inr r'"
      "session_inv cb (s\<lparr>rec_of := r'\<rparr>)" "recording r' = recording (rec_of s)"
      by auto
    then show ?thesis using False KeyReleased
      by (simp add: on_key_release_def key_eq_stop bind_err_def)
  qed
next
  case (PointerMoved x y)
  then show ?thesis using assms by simp
next
  case (Clicked x y b p)
  have "PTuple [x, y, b, p] \<noteq> stop_hotkey" by (simp add: stop_hotkey_def)
  from record_event_inv [OF assms this, of "''mouse_click''" now]
  obtain r' where "record_event (rec_of s) now ''mouse_click'' (PTuple [x, y, b, p]) = Inr r'"
    "session_inv cb (s\<lparr>rec_of := r'\<rparr>)" "recording r' = recording (rec_of s)"
    by auto
  then show ?thesis using Clicked by (simp add: on_click_def bind_err_def)
next
  case (Scrolled x y dx dy)
  have "PTuple [x, y, dx, dy] \<noteq> stop_hotkey" by (simp add: stop_hotkey_def)
  from record_event_inv [OF assms this, of "''mouse_scroll''" now]
  obtain r' where "record_event (rec_of s) now ''mouse_scroll'' (PTuple [x, y, dx, dy]) = Inr r'"
    "session_inv cb (s\<lparr>rec_of := r'\<rparr>)" "recording r' = recording (rec_of s)"
    by auto
  then show ?thesis using Scrolled by (simp add: on_scroll_def bind_err_def)
qed

lemma stop_recording_cases:
  assumes "keyboard_listener r \<noteq> None" "mouse_listener r \<noteq> None"
  shows "stop_recording r =
     (if recording r then
        Inr (r\<lparr>recording := False, keyboard_listener := Some False,
                mouse_listener := Some False\<rparr>,
             (if on_stop r then [OnStop] else []), [KbListenerStop, MouseListenerStop], events r)
      else Inr (r, [], [], events r))"
  using assms by (auto simp: stop_recording_def Let_def)

lemma ui_stop_inv:
  assumes "session_inv cb s"
  shows "\<exists>s'. step s UiStop = Inr s' \<and> session_inv cb s' \<and> \<not> recording (rec_of s')"
proof -
  from assms have l: "keyboard_listener (rec_of s) \<noteq> None" "mouse_listener (rec_of s) \<noteq> None"
    by (simp_all add: session_inv_def)
  show ?thesis
  proof (cases "recording (rec_of s)")
    case True
    then show ?thesis using assms
      by (auto simp: stop_recording_cases [OF l] session_inv_def stops_def finalized_def)
  next
    case False
    then show ?thesis using assms
      by (simp add: stop_recording_cases [OF l] session_inv_def stops_def finalized_def)
  qed
qed

lemma qt_run_inv:
  assumes "session_inv cb s"
  shows "\<exists>s'. step s QtRun = Inr s' \<and> session_inv cb s'
     \<and> (\<not> recording (rec_of s) \<longrightarrow> \<not> recording (rec_of s'))"
proof (cases "queue s")
  case Nil
  then show ?thesis using assms by simp
next
  case (Cons c q)
  from assms have l: "keyboard_listener (rec_of s) \<noteq> None" "mouse_listener (rec_of s) \<noteq> None"
    by (simp_all add: session_inv_def)
  show ?thesis
  proof (cases c)
    case StopFromHotkey
    show ?thesis
    proof (cases "recording (rec_of s)")
      case True
      then show ?thesis using assms Cons StopFromHotkey
        by (auto simp: stop_recording_from_hotkey_def stop_recording_cases [OF l]
            session_inv_def stops_def finalized_def)
    next
      case False
      then show ?thesis using assms Cons StopFromHotkey
        by (simp add: stop_recording_from_hotkey_def session_inv_def stops_def finalized_def)
    qed
  next
    case OnStop
    then show ?thesis using assms Cons
      by (simp add: session_inv_def stops_def finalized_def)
  qed
qed

lemma step_inv:
  assumes "session_inv cb s"
  shows "\<exists>s'. step s inp = Inr s' \<and> session_inv cb s'
     \<and> (\<not> recording (rec_of s) \<longrightarrow> \<not> recording (rec_of s'))
     \<and> (inp = UiStop \<longrightarrow> \<not> recording (rec_of s'))"
proof (cases inp)
  case (Notify now n)
  from deliver_inv [OF assms, of now n] obtain r' cbs where
    "deliver (rec_of s) now n = Inr (r', cbs)"
    "session_inv cb (s\<lparr>rec_of := r', queue := queue s @ cbs\<rparr>)"
    "recording r' = recording (rec_of s)"
    by blast
  then show ?thesis using Notify by simp
next
  case UiStop
  then show ?thesis using ui_stop_inv [OF assms] by auto
next
  case QtRun
  then show ?thesis using qt_run_inv [OF assms] by auto
qed

lemma run_inv:
  "session_inv cb s \<Longrightarrow>
   \<exists>s'. run s ins = Inr s' \<and> session_inv cb s'
     \<and> (\<not> recording (rec_of s) \<or> UiStop \<in> set ins \<longrightarrow> \<not> recording (rec_of s'))"
proof (induction ins arbitrary: s)
  case Nil
  then show ?case by simp
next
  case (Cons inp ins)
  from step_inv [OF Cons.prems, of inp] obtain s1 where
    s1: "step s inp = Inr s1" and i1: "session_inv cb s1"
    and m1: "\<not> recording (rec_of s) \<longrightarrow> \<not> recording (rec_of s1)"
    and u1: "inp = UiStop \<longrightarrow> \<not> recording (rec_of s1)"
    by blast
  from Cons.IH [OF i1] obtain s' where
    s': "run s1 ins = Inr s'" and i': "session_inv cb s'"
    and m': "\<not> recording (rec_of s1) \<or> UiStop \<in> set ins \<longrightarrow> \<not> recording (rec_of s')"
    by blast
  have "run s (inp # ins) = Inr s'" using s1 s' by simp
  moreover have "\<not> recording (rec_of s) \<or> UiStop \<in> set (inp # ins) \<longrightarrow> \<not> recording (rec_of s')"
    using m1 u1 m' by auto
  ultimately show ?case using i' by blast
qed

lemma started_inv: "session_inv (on_stop r) (started r now)"
  by (simp add: started_def start_recording_def session_inv_def stops_def finalized_def Let_def)




lemma session_inv_no_move_event:
  "session_inv cb s \<Longrightarrow> list_all (\<lambda>e. fst (snd e) \<noteq> PStr ''mouse_move'') (events (rec_of s))"
  by (simp add: session_inv_def list_all_iff)



lemma session_example_evaluated:
  "run (started (init_recorder\<lparr>on_stop := True\<rparr>) 0)
     [Notify 1 (KeyPressed (KeyCode (Some ''a'') None False)),
      Notify 2 (KeyPressed (Key ''f12'')), Notify 3 (KeyReleased (Key ''f12'')),
      Notify 4 (KeyPressed (Key ''f12'')), UiStop, QtRun, UiStop, QtRun, QtRun]
   = Inr \<lparr>rec_of = \<lparr>events = [(PFloat 1, PStr ''key_press'', KeyCode (Some ''a'') None False)],
                     recording = False, start_time = Some 0, hotkey_triggered = True,
                     on_stop = True, keyboard_listener = Some False,
                     mouse_listener = Some False\<rparr>,
          queue = [],
          effects = [KbListenerStart, MouseListenerStart, KbListenerStop, MouseListenerStop,
                     OnStopCalled [(PFloat 1, PStr ''key_press'',
                                    KeyCode (Some ''a'') None False)]]\<rparr>"
  by code_simp

text \<open>
  Claim C6, as the code has it. A pointer move reaches no callback and leaves the recorder
  unchanged, so no session ever records a pointer-move event. Playback issues no
  pointer-move call for any event sequence, also one that holds pointer-move events.
\<close>

theorem pointer_moves_not_captured_nor_replayed:
  "deliver r now (PointerMoved x y) = Inr (r, [])
   \<and> (\<exists>s. run (started r0 t0) ins = Inr s
         \<and> list_all (\<lambda>e. fst (snd e) \<noteq> PStr ''mouse_move'') (events (rec_of s)))
   \<and> no_move (fst (play ev es))"
proof -
  from run_inv [OF started_inv, of r0 t0 ins] obtain s where
    "run (started r0 t0) ins = Inr s" and "session_inv (on_stop r0) s"
    by blast
  then have "\<exists>s. run (started r0 t0) ins = Inr s
         \<and> list_all (\<lambda>e. fst (snd e) \<noteq> PStr ''mouse_move'') (events (rec_of s))"
    using session_inv_no_move_event by blast
  then show ?thesis
    using no_move_play_from [of ev 0 es] by (simp add: play_def)
qed

theorem pointer_moves_not_captured_nor_replayed_witness:
  "no_move (fst (play calm_env
      [(PFloat 0, PStr ''mouse_move'', PTuple [PInt 10, PInt 20]),
       (PFloat 0, PStr ''mouse_click'', PTuple [PInt 10, PInt 20, Button ''left'', PBool True])]))
   \<and> play calm_env
      [(PFloat 0, PStr ''mouse_move'', PTuple [PInt 10, PInt 20]),
       (PFloat 0, PStr ''mouse_click'', PTuple [PInt 10, PInt 20, Button ''left'', PBool True])]
     = ([Call (MousePress (Button ''left''))], Finished)"
proof -
  have "play calm_env
      [(PFloat 0, PStr ''mouse_move'', PTuple [PInt 10, PInt 20]),
       (PFloat 0, PStr ''mouse_click'', PTuple [PInt 10, PInt 20, Button ''left'', PBool True])]
     = ([Call (MousePress (Button ''left''))], Finished)"
    by code_simp
  then show ?thesis
    using pointer_moves_not_captured_nor_replayed
      [of init_recorder 0 "PInt 0" "PInt 0" init_recorder 0 "[]" calm_env
        "[(PFloat 0, PStr ''mouse_move'', PTuple [PInt 10, PInt 20]),
          (PFloat 0, PStr ''mouse_click'',
           PTuple [PInt 10, PInt 20, Button ''left'', PBool True])]"]
    by blast
qed

text \<open>
  The first half of C6 fails: two pointer moves during a recording leave the session as
  it started, with no event recorded.
\<close>

theorem pointer_move_not_recorded:
  "run (started init_recorder 0)
     [Notify 1 (PointerMoved (PInt 10) (PInt 20)), Notify 2 (PointerMoved (PInt 11) (PInt 20))]
     = Inr (started init_recorder 0)
   \<and> events (rec_of (started init_recorder 0)) = []"
  by code_simp

text \<open>
  Claim C8, as the code has it. When starting a listener raises, \<open>start_recording\<close> ends with
  the exception, and the attributes set before the listeners were started stay: the event
  list cleared, the recording flag set, the start time. When it is the mouse listener that
  fails, the keyboard listener stays started.
\<close>

theorem failed_start_keeps_state:
  "start_recording r now True mf
     = (r\<lparr>events := [], recording := True, start_time := Some now, hotkey_triggered := False,
          keyboard_listener := Some False, mouse_listener := Some False\<rparr>,
        [], Some HookInstallError)
   \<and> start_recording r now False True
     = (r\<lparr>events := [], recording := True, start_time := Some now, hotkey_triggered := False,
          keyboard_listener := Some True, mouse_listener := Some False\<rparr>,
        [KbListenerStart], Some HookInstallError)"
  by (simp add: start_recording_def Let_def)

theorem failed_start_keeps_state_witness:
  "recording (fst (start_recording init_recorder 5 True False))
   \<and> start_time (fst (start_recording init_recorder 5 True False)) = Some 5
   \<and> snd (snd (start_recording init_recorder 5 True False)) = Some HookInstallError
   \<and> keyboard_listener (fst (start_recording init_recorder 5 False True)) = Some True"
  using failed_start_keeps_state [of init_recorder 5 False] by simp

text \<open>
  The state C8 says is not retained: a recorder holding one event of an earlier session,
  after a start whose keyboard hook fails, is recording with an empty event list.
\<close>

theorem failed_start_is_not_rolled_back:
  "start_recording
     (init_recorder\<lparr>events := [(PFloat 1, PStr ''key_press'', KeyCode (Some ''a'') None False)]\<rparr>)
     5 True False
   = (\<lparr>events = [], recording = True, start_time = Some 5, hotkey_triggered = False,
       on_stop = False, keyboard_listener = Some False, mouse_listener = Some False\<rparr>,
      [], Some HookInstallError)
   \<and> fst (start_recording
       (init_recorder\<lparr>events := [(PFloat 1, PStr ''key_press'',
                                   KeyCode (Some ''a'') None False)]\<rparr>) 5 True False)
     \<noteq> init_recorder\<lparr>events := [(PFloat 1, PStr ''key_press'',
                                  KeyCode (Some ''a'') None False)]\<rparr>"
  by code_simp

end
